theory Spec2Isabelle
  imports Main "HOL-Library.AList"
begin

text \<open>
  The static site of the repository is built from a JSON content tree and an HTML template.
  This theory embeds the three parts that do it: the path resolver (\<^verbatim>\<open>getValue\<close> of
  \<^verbatim>\<open>build.js\<close> and \<^verbatim>\<open>editor/server.js\<close>, \<^verbatim>\<open>setValue\<close> of \<^verbatim>\<open>editor/server.js\<close>), the template
  compiler (\<^verbatim>\<open>buildHTML\<close> of \<^verbatim>\<open>editor/server.js\<close>, the same three passes as the body of
  \<^verbatim>\<open>build.js\<close>) and the handler of \<^verbatim>\<open>POST /api/publish\<close>. The definitions come first, the
  properties after them.
\<close>

section \<open>JavaScript values of a parsed content tree\<close>

text \<open>
  The content tree is what \<^verbatim>\<open>JSON.parse\<close> returns: \<^verbatim>\<open>null\<close>, booleans, numbers, strings,
  arrays and plain objects, plus \<^verbatim>\<open>undefined\<close> as the result of reading a missing property.
  Strings are lists of code units below 256 (the line terminators U+2028 and U+2029 and the
  wide white space characters have no \<open>char\<close>). Numbers are the integers; those below \<open>2\<^sup>5\<^sup>3\<close> in magnitude are the numbers that
  \<^verbatim>\<open>JSON.parse\<close> reads exactly and JavaScript prints in plain decimal; fractions and
  exponents are not part of the model. An object is its list of own properties in insertion order;
  \<open>map_of\<close> reads a key.
\<close>

datatype jv =
    JUndef
  | JNull
  | JBool bool
  | JNum int
  | JStr string
  | JArr "jv list"
  | JObj "(string \<times> jv) list"

text \<open>
  What an operation of the source can end with other than a value. \<open>Unmodelled\<close> marks the
  places where JavaScript continues with a value that is not a JSON value (a built-in method
  read from a prototype, an array that received a named property or a hole).
\<close>

datatype fault = TypeError | Unmodelled

fun truthy :: "jv \<Rightarrow> bool" where
  "truthy JUndef = False"
| "truthy JNull = False"
| "truthy (JBool b) = b"
| "truthy (JNum n) = (n \<noteq> 0)"
| "truthy (JStr s) = (s \<noteq> [])"
| "truthy (JArr xs) = True"
| "truthy (JObj kvs) = True"


subsection \<open>Decimal numerals and array indices\<close>

definition digit_char :: "nat \<Rightarrow> char" where
  "digit_char d = ''0123456789'' ! (d mod 10)"

fun show_nat :: "nat \<Rightarrow> string" where
  "show_nat n = (if n < 10 then [digit_char n] else show_nat (n div 10) @ [digit_char (n mod 10)])"

definition show_int :: "int \<Rightarrow> string" where
  "show_int i = (if i < 0 then CHR ''-'' # show_nat (nat (- i)) else show_nat (nat i))"

definition is_digit :: "char \<Rightarrow> bool" where
  "is_digit c = ((48::nat) \<le> of_char c \<and> of_char c \<le> (57::nat))"

definition digit_val :: "char \<Rightarrow> nat" where
  "digit_val c = of_char c - 48"

text \<open>
  A property key addresses an element when it is the canonical decimal form of the index:
  digits only, no leading zero except for \<^verbatim>\<open>"0"\<close> itself.
\<close>

definition array_index :: "string \<Rightarrow> nat option" where
  "array_index k =
     (if k = [] \<or> \<not> list_all is_digit k \<or> (hd k = CHR ''0'' \<and> length k > 1) then None
      else Some (foldl (\<lambda>n c. 10 * n + digit_val c) 0 k))"

subsection \<open>Reading a property\<close>

text \<open>
  The names of the members that a value inherits from its prototype (ECMAScript 2023 with
  Annex B): every object from \<^verbatim>\<open>Object.prototype\<close>, an array, a string and a number from its
  own prototype as well. Reading one of them where no own property shadows it yields a
  built-in function, which is not a value of the tree: \<open>Unmodelled\<close>.
\<close>

definition object_proto :: "string list" where
  "object_proto = [''constructor'', ''hasOwnProperty'', ''isPrototypeOf'',
     ''propertyIsEnumerable'', ''toLocaleString'', ''toString'', ''valueOf'', ''__proto__'',
     ''__defineGetter__'', ''__defineSetter__'', ''__lookupGetter__'', ''__lookupSetter__'']"

definition array_proto :: "string list" where
  "array_proto = object_proto @ [''at'', ''concat'', ''copyWithin'', ''entries'', ''every'',
     ''fill'', ''filter'', ''find'', ''findIndex'', ''findLast'', ''findLastIndex'', ''flat'',
     ''flatMap'', ''forEach'', ''includes'', ''indexOf'', ''join'', ''keys'', ''lastIndexOf'',
     ''map'', ''pop'', ''push'', ''reduce'', ''reduceRight'', ''reverse'', ''shift'', ''slice'',
     ''some'', ''sort'', ''splice'', ''toReversed'', ''toSorted'', ''toSpliced'', ''unshift'',
     ''values'', ''with'']"

definition string_proto :: "string list" where
  "string_proto = object_proto @ [''at'', ''charAt'', ''charCodeAt'', ''codePointAt'',
     ''concat'', ''endsWith'', ''includes'', ''indexOf'', ''isWellFormed'', ''lastIndexOf'',
     ''localeCompare'', ''match'', ''matchAll'', ''normalize'', ''padEnd'', ''padStart'',
     ''repeat'', ''replace'', ''replaceAll'', ''search'', ''slice'', ''split'', ''startsWith'',
     ''substring'', ''toLocaleLowerCase'', ''toLocaleUpperCase'', ''toLowerCase'',
     ''toUpperCase'', ''toWellFormed'', ''trim'', ''trimEnd'', ''trimStart'', ''substr'',
     ''anchor'', ''big'', ''blink'', ''bold'', ''fixed'', ''fontcolor'', ''fontsize'',
     ''italics'', ''link'', ''small'', ''strike'', ''sub'', ''sup'', ''trimLeft'',
     ''trimRight'']"

definition number_proto :: "string list" where
  "number_proto = object_proto @ [''toExponential'', ''toFixed'', ''toPrecision'']"


definition absent_member :: "string list \<Rightarrow> string \<Rightarrow> fault + jv" where
  "absent_member inherited k = (if k \<in> set inherited then Inl Unmodelled else Inr JUndef)"

text \<open>\<^verbatim>\<open>current[prop]\<close>: a TypeError on \<^verbatim>\<open>null\<close> and \<^verbatim>\<open>undefined\<close>.\<close>

fun get_prop :: "jv \<Rightarrow> string \<Rightarrow> fault + jv" where
  "get_prop JUndef k = Inl TypeError"
| "get_prop JNull k = Inl TypeError"
| "get_prop (JObj kvs) k =
     (case map_of kvs k of Some v \<Rightarrow> Inr v | None \<Rightarrow> absent_member object_proto k)"
| "get_prop (JArr xs) k =
     (if k = ''length'' then Inr (JNum (int (length xs)))
      else case array_index k of
             Some i \<Rightarrow> if i < length xs then Inr (xs ! i) else Inr JUndef
           | None \<Rightarrow> absent_member array_proto k)"
| "get_prop (JStr s) k =
     (if k = ''length'' then Inr (JNum (int (length s)))
      else case array_index k of
             Some i \<Rightarrow> if i < length s then Inr (JStr [s ! i]) else Inr JUndef
           | None \<Rightarrow> absent_member string_proto k)"
| "get_prop (JBool b) k = absent_member object_proto k"
| "get_prop (JNum n) k = absent_member number_proto k"

subsection \<open>The path resolver\<close>

text \<open>\<^verbatim>\<open>path.split('.')\<close>: the pieces between the dots, one piece for a path without dots.\<close>

fun split_dot :: "string \<Rightarrow> string list" where
  "split_dot [] = [[]]"
| "split_dot (c # cs) =
     (if c = CHR ''.'' then [] # split_dot cs
      else case split_dot cs of
             [] \<Rightarrow> [[c]]
           | p # ps \<Rightarrow> (c # p) # ps)"

text \<open>The reducer \<^verbatim>\<open>(current, prop) => current && current[prop]\<close>.\<close>

fun and_prop :: "fault + jv \<Rightarrow> string \<Rightarrow> fault + jv" where
  "and_prop (Inl e) prop = Inl e"
| "and_prop (Inr current) prop = (if truthy current then get_prop current prop else Inr current)"

text \<open>
  \<^verbatim>\<open>function getValue(obj, path) {
    return path.split('.').reduce((current, prop) => current && current[prop], obj);
  }\<close>
\<close>

definition getValue :: "jv \<Rightarrow> string \<Rightarrow> fault + jv" where
  "getValue obj path = foldl and_prop (Inr obj) (split_dot path)"

subsection \<open>Writing a property\<close>











section \<open>Strings and regular expressions as the source uses them\<close>

text \<open>
  White space of \<^verbatim>\<open>String.prototype.trim\<close> and of the class \<^verbatim>\<open>\s\<close>: tab, line feed, vertical
  tab, form feed, carriage return, space and no-break space.
\<close>

definition is_ws :: "char \<Rightarrow> bool" where
  "is_ws c = (of_char c \<in> set [9, 10, 11, 12, 13, 32, 160 :: nat])"

definition trim :: "string \<Rightarrow> string" where
  "trim s = rev (dropWhile is_ws (rev (dropWhile is_ws s)))"

text \<open>
  The regular expressions of the source are sequences of single characters and character
  classes, each taken once, repeated greedily (\<^verbatim>\<open>*\<close>; \<^verbatim>\<open>+\<close> is one followed by \<^verbatim>\<open>*\<close>) or
  repeated lazily (\<^verbatim>\<open>*?\<close>), with capture groups. \<open>Mark\<close> stands for a parenthesis of a group.
\<close>

datatype cls =
    Lit char                \<comment> \<open>the character itself\<close>
  | NotOf "char list"       \<comment> \<open>\<^verbatim>\<open>[^...]\<close>\<close>
  | Space                   \<comment> \<open>\<^verbatim>\<open>\s\<close>\<close>
  | Dot                     \<comment> \<open>\<^verbatim>\<open>.\<close>: anything but a line terminator\<close>
  | AnyChar                 \<comment> \<open>\<^verbatim>\<open>[\s\S]\<close>\<close>

datatype item = One cls | Star cls | Lazy cls | Mark

text \<open>
  Canonicalisation under the flag \<^verbatim>\<open>i\<close>: the ASCII letters go to upper case. The expressions
  of the source hold ASCII characters only, and no other character canonicalises to one.
\<close>

definition canon :: "char \<Rightarrow> char" where
  "canon c =
     (case map_of (zip ''abcdefghijklmnopqrstuvwxyz'' ''ABCDEFGHIJKLMNOPQRSTUVWXYZ'') c of
        Some u \<Rightarrow> u
      | None \<Rightarrow> c)"

fun cls_ok :: "bool \<Rightarrow> cls \<Rightarrow> char \<Rightarrow> bool" where
  "cls_ok ci (Lit c) x = (if ci then canon x = canon c else x = c)"
| "cls_ok ci (NotOf cs) x = (if ci then canon x \<notin> canon ` set cs else x \<notin> set cs)"
| "cls_ok ci Space x = is_ws x"
| "cls_ok ci Dot x = (x \<noteq> CHR 0x0A \<and> x \<noteq> CHR 0x0D)"
| "cls_ok ci AnyChar x = True"

definition lits :: "string \<Rightarrow> item list" where
  "lits w = map (\<lambda>c. One (Lit c)) w"

text \<open>
  The backtracking matcher, anchored at the head of the string. The result is the text left
  after the match, and the texts left at each mark. A greedy repetition tries one more
  character first and the rest of the expression after that; a lazy one the other way round.
\<close>

fun rx_match :: "bool \<Rightarrow> item list \<Rightarrow> string \<Rightarrow> (string list \<times> string) option" where
  "rx_match ci [] s = Some ([], s)"
| "rx_match ci (Mark # r) s =
     (case rx_match ci r s of None \<Rightarrow> None | Some (ms, rest) \<Rightarrow> Some (s # ms, rest))"
| "rx_match ci (One c # r) [] = None"
| "rx_match ci (One c # r) (x # xs) = (if cls_ok ci c x then rx_match ci r xs else None)"
| "rx_match ci (Star c # r) [] = rx_match ci r []"
| "rx_match ci (Star c # r) (x # xs) =
     (if cls_ok ci c x
      then (case rx_match ci (Star c # r) xs of
              Some m \<Rightarrow> Some m
            | None \<Rightarrow> rx_match ci r (x # xs))
      else rx_match ci r (x # xs))"
| "rx_match ci (Lazy c # r) [] = rx_match ci r []"
| "rx_match ci (Lazy c # r) (x # xs) =
     (case rx_match ci r (x # xs) of
        Some m \<Rightarrow> Some m
      | None \<Rightarrow> if cls_ok ci c x then rx_match ci (Lazy c # r) xs else None)"

text \<open>
  A match as the source reads it: the text before it, the matched text (\<^verbatim>\<open>match[0]\<close>), the
  captured groups (\<^verbatim>\<open>match[1]\<close>, ...) and the text after it.
\<close>

record rx_hit =
  before :: string
  whole :: string
  groups :: "string list"
  after :: string

fun group_texts :: "string list \<Rightarrow> string list" where
  "group_texts (a # b # ms) = take (length a - length b) a # group_texts ms"
| "group_texts ms = []"

definition hit_at :: "string \<Rightarrow> string \<Rightarrow> string list \<times> string \<Rightarrow> rx_hit" where
  "hit_at pre s m =
     \<lparr>before = pre, whole = take (length s - length (snd m)) s,
      groups = group_texts (fst m), after = snd m\<rparr>"

text \<open>The leftmost match in \<open>s\<close>; \<open>pre\<close> is the text already passed over, in reverse.\<close>

fun rx_find_from :: "bool \<Rightarrow> item list \<Rightarrow> string \<Rightarrow> string \<Rightarrow> rx_hit option" where
  "rx_find_from ci r pre [] =
     (case rx_match ci r [] of None \<Rightarrow> None | Some m \<Rightarrow> Some (hit_at (rev pre) [] m))"
| "rx_find_from ci r pre (x # xs) =
     (case rx_match ci r (x # xs) of
        None \<Rightarrow> rx_find_from ci r (x # pre) xs
      | Some m \<Rightarrow> Some (hit_at (rev pre) (x # xs) m))"

definition rx_find :: "bool \<Rightarrow> item list \<Rightarrow> string \<Rightarrow> rx_hit option" where
  "rx_find ci r s = rx_find_from ci r [] s"




text \<open>
  \<^verbatim>\<open>str.replace(regex, callback)\<close> with the flag \<^verbatim>\<open>g\<close> cuts the string into the characters
  that are copied and the matches that are handed to the callback, scanning from the left and
  resuming after each match (one character further after an empty match).
\<close>

datatype seg = Plain char | Hit string "string list"

function scan :: "bool \<Rightarrow> item list \<Rightarrow> string \<Rightarrow> seg list" where
  "scan ci r [] =
     (case rx_match ci r [] of None \<Rightarrow> [] | Some m \<Rightarrow> [Hit [] (group_texts (fst m))])"
| "scan ci r (x # xs) =
     (case rx_match ci r (x # xs) of
        None \<Rightarrow> Plain x # scan ci r xs
      | Some m \<Rightarrow>
          if length (snd m) < length (x # xs)
          then Hit (take (length (x # xs) - length (snd m)) (x # xs)) (group_texts (fst m))
                 # scan ci r (snd m)
          else Hit [] (group_texts (fst m)) # Plain x # scan ci r xs)"
  by pat_completeness auto
termination
  by (relation "measure (\<lambda>(ci, r, s). length s)") auto

fun seg_text :: "seg \<Rightarrow> string" where
  "seg_text (Plain c) = [c]"
| "seg_text (Hit w gs) = w"

text \<open>The callbacks run from left to right; the first one that throws ends the call.\<close>

fun emit :: "(string \<Rightarrow> string list \<Rightarrow> fault + string) \<Rightarrow> seg \<Rightarrow> fault + string" where
  "emit cb (Plain c) = Inr [c]"
| "emit cb (Hit w gs) = cb w gs"

fun emit_all :: "(string \<Rightarrow> string list \<Rightarrow> fault + string) \<Rightarrow> seg list \<Rightarrow> fault + string" where
  "emit_all cb [] = Inr []"
| "emit_all cb (g # gs) =
     (case emit cb g of
        Inl e \<Rightarrow> Inl e
      | Inr t \<Rightarrow> (case emit_all cb gs of Inl e \<Rightarrow> Inl e | Inr u \<Rightarrow> Inr (t @ u)))"

definition replace_all ::
  "bool \<Rightarrow> item list \<Rightarrow> (string \<Rightarrow> string list \<Rightarrow> fault + string) \<Rightarrow> string \<Rightarrow> fault + string" where
  "replace_all ci r cb s = emit_all cb (scan ci r s)"

text \<open>The first capture group; every expression below that is asked for it has one.\<close>

definition group1 :: "string list \<Rightarrow> string" where
  "group1 gs = (case gs of [] \<Rightarrow> [] | g # _ \<Rightarrow> g)"

definition group2 :: "string list \<Rightarrow> string" where
  "group2 gs = (case gs of _ # g # _ \<Rightarrow> g | _ \<Rightarrow> [])"

subsection \<open>Replacing a string by a string\<close>

text \<open>
  \<^verbatim>\<open>str.replace(pattern, replacement)\<close> with two strings replaces the first occurrence of the
  pattern and expands \<^verbatim>\<open>$$\<close>, \<^verbatim>\<open>$&\<close>, \<^verbatim>\<open>$`\<close> and \<^verbatim>\<open>$'\<close> in the replacement; there are no groups,
  so every other \<^verbatim>\<open>$\<close> stays.
\<close>

fun find_sub :: "string \<Rightarrow> string \<Rightarrow> string \<Rightarrow> (string \<times> string) option" where
  "find_sub pat pre [] = (if pat = [] then Some (rev pre, []) else None)"
| "find_sub pat pre (x # xs) =
     (if take (length pat) (x # xs) = pat then Some (rev pre, drop (length pat) (x # xs))
      else find_sub pat (x # pre) xs)"

fun expand_dollar :: "string \<Rightarrow> string \<Rightarrow> string \<Rightarrow> string \<Rightarrow> string" where
  "expand_dollar m pre post [] = []"
| "expand_dollar m pre post [c] = [c]"
| "expand_dollar m pre post (c # d # cs) =
     (if c \<noteq> CHR ''$'' then c # expand_dollar m pre post (d # cs)
      else if d = CHR ''$'' then CHR ''$'' # expand_dollar m pre post cs
      else if d = CHR ''&'' then m @ expand_dollar m pre post cs
      else if d = CHR 0x60 then pre @ expand_dollar m pre post cs
      else if d = CHR 0x27 then post @ expand_dollar m pre post cs
      else c # expand_dollar m pre post (d # cs))"

definition str_replace :: "string \<Rightarrow> string \<Rightarrow> string \<Rightarrow> string" where
  "str_replace s pat rep =
     (case find_sub pat [] s of
        None \<Rightarrow> s
      | Some (pre, post) \<Rightarrow> pre @ expand_dollar pat pre post rep @ post)"

subsection \<open>Conversion to a string\<close>

text \<open>
  \<^verbatim>\<open>ToString\<close> of a value of the tree. An integer below \<open>2\<^sup>5\<^sup>3\<close> in magnitude is printed in
  decimal. An array joins the strings of its elements with commas, \<^verbatim>\<open>null\<close> and
  \<^verbatim>\<open>undefined\<close> as the empty string. A plain object is \<^verbatim>\<open>[object Object]\<close> through the
  \<^verbatim>\<open>toString\<close> it inherits; when it has a property \<^verbatim>\<open>toString\<close> of its own, that value is
  not callable, the inherited \<^verbatim>\<open>valueOf\<close> returns the object, and the conversion throws a
  TypeError.
\<close>

fun join_comma :: "string list \<Rightarrow> string" where
  "join_comma [] = []"
| "join_comma [s] = s"
| "join_comma (s # t # ts) = s @ CHR '','' # join_comma (t # ts)"

fun collect :: "(fault + string) list \<Rightarrow> fault + string list" where
  "collect [] = Inr []"
| "collect (r # rs) =
     (case r of
        Inl e \<Rightarrow> Inl e
      | Inr t \<Rightarrow> (case collect rs of Inl e \<Rightarrow> Inl e | Inr ts \<Rightarrow> Inr (t # ts)))"

fun to_string :: "jv \<Rightarrow> fault + string" where
  "to_string JUndef = Inr ''undefined''"
| "to_string JNull = Inr ''null''"
| "to_string (JBool b) = Inr (if b then ''true'' else ''false'')"
| "to_string (JNum n) =
     (if \<bar>n\<bar> < 9007199254740992 then Inr (show_int n) else Inl Unmodelled)"
| "to_string (JStr s) = Inr s"
| "to_string (JArr xs) =
     (case collect (map (\<lambda>v. if v = JNull \<or> v = JUndef then Inr [] else to_string v) xs) of
        Inl e \<Rightarrow> Inl e
      | Inr ts \<Rightarrow> Inr (join_comma ts))"
| "to_string (JObj kvs) =
     (if map_of kvs ''toString'' \<noteq> None then Inl TypeError else Inr ''[object Object]'')"

section \<open>The template compiler\<close>

subsection \<open>Scalar substitution\<close>

text \<open>
  \<^verbatim>\<open>html = html.replace(/\{\{([^#\/].*?)\}\}/g, (match, key) => {
    const value = getValue(data, key.trim());
    return value !== undefined ? value : match;
  });\<close>
\<close>

definition placeholder_rx :: "item list" where
  "placeholder_rx = lits ''{{'' @ [Mark, One (NotOf ''#/''), Lazy Dot, Mark] @ lits ''}}''"

definition placeholder_cb :: "jv \<Rightarrow> string \<Rightarrow> string list \<Rightarrow> fault + string" where
  "placeholder_cb data match gs =
     (case getValue data (trim (group1 gs)) of
        Inl e \<Rightarrow> Inl e
      | Inr v \<Rightarrow> if v \<noteq> JUndef then to_string v else Inr match)"

definition scalar_pass :: "jv \<Rightarrow> string \<Rightarrow> fault + string" where
  "scalar_pass data html = replace_all False placeholder_rx (placeholder_cb data) html"

subsection \<open>Iteration blocks\<close>

text \<open>
  \<^verbatim>\<open>const eachRegex = /\{\{#each\s+([^}]+)\}\}([\s\S]*?)\{\{\/each\}\}/g;\<close>
\<close>

definition eachRegex :: "item list" where
  "eachRegex = lits ''{{#each'' @ [One Space, Star Space, Mark, One (NotOf ''}''), Star (NotOf ''}''), Mark]
     @ lits ''}}'' @ [Mark, Lazy AnyChar, Mark] @ lits ''{{/each}}''"

text \<open>\<^verbatim>\<open>/\{\{this\.([^}]+)\}\}/g\<close> and \<^verbatim>\<open>/\{\{this\}\}/g\<close>.\<close>

definition this_prop_rx :: "item list" where
  "this_prop_rx = lits ''{{this.'' @ [Mark, One (NotOf ''}''), Star (NotOf ''}''), Mark] @ lits ''}}''"

definition this_rx :: "item list" where
  "this_rx = lits ''{{this}}''"

text \<open>\<^verbatim>\<open>(m, prop) => { return item[prop.trim()] || ''; }\<close>\<close>

definition this_prop_cb :: "jv \<Rightarrow> string \<Rightarrow> string list \<Rightarrow> fault + string" where
  "this_prop_cb item m gs =
     (case get_prop item (trim (group1 gs)) of
        Inl e \<Rightarrow> Inl e
      | Inr v \<Rightarrow> if truthy v then to_string v else Inr [])"

text \<open>\<^verbatim>\<open>() => { return typeof item === 'string' ? item : ''; }\<close>\<close>

definition this_cb :: "jv \<Rightarrow> string \<Rightarrow> string list \<Rightarrow> fault + string" where
  "this_cb item m gs = Inr (case item of JStr s \<Rightarrow> s | _ \<Rightarrow> [])"

definition render_item :: "string \<Rightarrow> jv \<Rightarrow> fault + string" where
  "render_item blockTemplate item =
     (case replace_all False this_prop_rx (this_prop_cb item) blockTemplate of
        Inl e \<Rightarrow> Inl e
      | Inr itemBlock \<Rightarrow> replace_all False this_rx (this_cb item) itemBlock)"

text \<open>\<^verbatim>\<open>array.map(item => ...).join('')\<close>\<close>

fun render_items :: "string \<Rightarrow> jv list \<Rightarrow> fault + string" where
  "render_items blockTemplate [] = Inr []"
| "render_items blockTemplate (item # items) =
     (case render_item blockTemplate item of
        Inl e \<Rightarrow> Inl e
      | Inr t \<Rightarrow> (case render_items blockTemplate items of Inl e \<Rightarrow> Inl e | Inr u \<Rightarrow> Inr (t @ u)))"

text \<open>
  \<^verbatim>\<open>eachRegex.exec(html)\<close> searches from \<^verbatim>\<open>lastIndex\<close>, which the previous call left at the
  end of its match; beyond the end of the string it finds nothing.
\<close>

definition exec_from :: "item list \<Rightarrow> string \<Rightarrow> nat \<Rightarrow> rx_hit option" where
  "exec_from r html lastIndex =
     (if lastIndex > length html then None else rx_find False r (drop lastIndex html))"

text \<open>
  One turn of
  \<^verbatim>\<open>while ((match = eachRegex.exec(html)) !== null) {
    const arrayPath = match[1].trim();
    const blockTemplate = match[2];
    const array = getValue(data, arrayPath);
    if (Array.isArray(array)) {
      const rendered = array.map(...).join('');
      html = html.replace(match[0], rendered);
    }
  }\<close>
  The state is the document and \<^verbatim>\<open>lastIndex\<close>.
\<close>

datatype turn = Finished string | Continue string nat | Threw fault

definition each_turn :: "jv \<Rightarrow> string \<Rightarrow> nat \<Rightarrow> turn" where
  "each_turn data html lastIndex =
     (case exec_from eachRegex html lastIndex of
        None \<Rightarrow> Finished html
      | Some match \<Rightarrow>
          let lastIndex' = lastIndex + length (before match) + length (whole match);
              arrayPath = trim (group1 (groups match));
              blockTemplate = group2 (groups match)
          in (case getValue data arrayPath of
                Inl e \<Rightarrow> Threw e
              | Inr (JArr array) \<Rightarrow>
                  (case render_items blockTemplate array of
                     Inl e \<Rightarrow> Threw e
                   | Inr rendered \<Rightarrow> Continue (str_replace html (whole match) rendered) lastIndex')
              | Inr _ \<Rightarrow> Continue html lastIndex'))"

text \<open>
  The loop can run for ever (a rendered block may bring a new block behind \<^verbatim>\<open>lastIndex\<close>;
  \<open>buildHTML_never_ends\<close> below is such a run), so it takes fuel: \<open>None\<close> is a loop that has
  not ended within \<open>n\<close> turns.
\<close>

fun each_loop :: "nat \<Rightarrow> jv \<Rightarrow> string \<Rightarrow> nat \<Rightarrow> (fault + string) option" where
  "each_loop 0 data html lastIndex = None"
| "each_loop (Suc n) data html lastIndex =
     (case each_turn data html lastIndex of
        Finished h \<Rightarrow> Some (Inr h)
      | Threw e \<Rightarrow> Some (Inl e)
      | Continue h i \<Rightarrow> each_loop n data h i)"


subsection \<open>Section overrides\<close>

record section_entry =
  sec_id :: "string option"
  sec_class :: "string option"
  sec_path :: string

definition sectionMap :: "section_entry list" where
  "sectionMap =
    [\<lparr>sec_id = Some ''home'', sec_class = Some ''hero'', sec_path = ''hero''\<rparr>,
     \<lparr>sec_id = None, sec_class = Some ''experience-section'', sec_path = ''experience''\<rparr>,
     \<lparr>sec_id = None, sec_class = Some ''testimonial-section'', sec_path = ''testimonial''\<rparr>,
     \<lparr>sec_id = Some ''about'', sec_class = Some ''about-section'', sec_path = ''about''\<rparr>,
     \<lparr>sec_id = Some ''services'', sec_class = Some ''services-section'', sec_path = ''services''\<rparr>,
     \<lparr>sec_id = Some ''portfolio'', sec_class = Some ''portfolio-section'', sec_path = ''portfolio''\<rparr>,
     \<lparr>sec_id = None, sec_class = Some ''standards-section'', sec_path = ''standards''\<rparr>,
     \<lparr>sec_id = None, sec_class = Some ''location-section'', sec_path = ''location''\<rparr>,
     \<lparr>sec_id = Some ''contact'', sec_class = Some ''contact-section'', sec_path = ''contact''\<rparr>]"

text \<open>
  \<^verbatim>\<open>let pattern = '<section[^>]*';
  if (section.id) pattern += `id="${section.id}"[^>]*`;
  if (section.class) pattern += `class="[^"]*${section.class}[^"]*"[^>]*`;
  pattern += '>([\\s\\S]*?)</section>';
  const sectionRegex = new RegExp(pattern, 'i');\<close>
  The identifiers and classes of \<open>sectionMap\<close> are letters and hyphens, which stand for
  themselves in the pattern.
\<close>

definition sectionRegex :: "section_entry \<Rightarrow> item list" where
  \<open>sectionRegex sec =
     lits ''<section'' @ [Star (NotOf ''>'')]
     @ (case sec_id sec of
          None \<Rightarrow> []
        | Some i \<Rightarrow> lits (''id="'' @ i @ ''"'') @ [Star (NotOf ''>'')])
     @ (case sec_class sec of
          None \<Rightarrow> []
        | Some c \<Rightarrow> lits ''class="'' @ [Star (NotOf ''"'')] @ lits c @ [Star (NotOf ''"'')]
                     @ lits ''"'' @ [Star (NotOf ''>'')])
     @ lits ''>'' @ [Mark, Lazy AnyChar, Mark] @ lits ''</section>''\<close>

text \<open>
  \<^verbatim>\<open>const customHtml = getValue(data, section.path + '.customHtml');
  if (customHtml) {
    ...
    const sectionMatch = html.match(sectionRegex);
    if (sectionMatch) {
      html = html.replace(sectionRegex, (match, innerContent) => {
        return match.replace(innerContent, customHtml);
      });
    }
  }\<close>
\<close>

definition section_step :: "jv \<Rightarrow> string \<Rightarrow> section_entry \<Rightarrow> fault + string" where
  "section_step data html sec =
     (case getValue data (sec_path sec @ ''.customHtml'') of
        Inl e \<Rightarrow> Inl e
      | Inr customHtml \<Rightarrow>
          if truthy customHtml
          then (case rx_find True (sectionRegex sec) html of
                  None \<Rightarrow> Inr html
                | Some sectionMatch \<Rightarrow>
                    (case to_string customHtml of
                       Inl e \<Rightarrow> Inl e
                     | Inr replacement \<Rightarrow>
                         Inr (before sectionMatch
                              @ str_replace (whole sectionMatch) (group1 (groups sectionMatch))
                                  replacement
                              @ after sectionMatch)))
          else Inr html)"

fun section_pass :: "jv \<Rightarrow> section_entry list \<Rightarrow> string \<Rightarrow> fault + string" where
  "section_pass data [] html = Inr html"
| "section_pass data (sec # secs) html =
     (case section_step data html sec of
        Inl e \<Rightarrow> Inl e
      | Inr html' \<Rightarrow> section_pass data secs html')"










subsection \<open>The compiler\<close>

text \<open>
  \<open>buildHTML\<close> of the editor server, which is also the pipeline of \<^verbatim>\<open>build.js\<close>: scalar
  substitution, iteration blocks, section overrides. \<open>None\<close>: the loop of the second pass has
  not ended within \<open>n\<close> turns. \<open>Some (Inl e)\<close>: the call threw.
\<close>

definition buildHTML :: "nat \<Rightarrow> string \<Rightarrow> jv \<Rightarrow> (fault + string) option" where
  "buildHTML n template data =
     (case scalar_pass data template of
        Inl e \<Rightarrow> Some (Inl e)
      | Inr html \<Rightarrow>
          (case each_loop n data html 0 of
             None \<Rightarrow> None
           | Some (Inl e) \<Rightarrow> Some (Inl e)
           | Some (Inr html') \<Rightarrow> Some (section_pass data sectionMap html')))"

subsection \<open>Templates as text and placeholders\<close>








section \<open>The publish pipeline\<close>

text \<open>
  The handler of \<^verbatim>\<open>POST /api/publish\<close>. The world is the three local files and the blob
  container, with the list of the upload calls made so far. What the file system, the storage
  service and the build process answer is given from outside: \<open>build\<close> is
  \<^verbatim>\<open>node build.js\<close> run on the production data, \<open>Inl\<close> with its diagnostic text when the
  process fails, \<open>Inr\<close> with the document it writes to \<^verbatim>\<open>index.html\<close> otherwise.
\<close>

record world =
  preview_file :: "string option"
  production_file :: "string option"
  index_file :: "string option"
  blobs :: "(string \<times> string) list"
  upload_calls :: "(string \<times> string) list"

record outside =
  write_ok :: bool
  data_upload_ok :: bool
  build :: "string \<Rightarrow> string + string"
  html_upload_ok :: bool

datatype publish_error = CopyFailed | BuildFailed string | ReadFailed | UploadFailed

datatype response = Success | Failure publish_error

text \<open>\<^verbatim>\<open>await blockBlobClient.upload(buffer, buffer.length, options)\<close> with \<^verbatim>\<open>overwrite: true\<close>.\<close>

definition upload :: "bool \<Rightarrow> string \<Rightarrow> string \<Rightarrow> world \<Rightarrow> world" where
  "upload ok name content w =
     w\<lparr>upload_calls := upload_calls w @ [(name, content)],
       blobs := (if ok then AList.update name content (blobs w) else blobs w)\<rparr>"

text \<open>
  Step 1 copies \<^verbatim>\<open>data-preview.json\<close> to \<^verbatim>\<open>data.json\<close>; a failure ends the request. Step 2
  uploads \<^verbatim>\<open>data.json\<close>; its \<^verbatim>\<open>catch\<close> only logs (\<^verbatim>\<open>// Continue anyway - might still be able
  to build\<close>). Step 3 runs the build; a rejection reaches the outer \<^verbatim>\<open>catch\<close>. Step 4 reads
  \<^verbatim>\<open>index.html\<close>. Step 5 uploads it; its \<^verbatim>\<open>catch\<close> throws again. The outer \<^verbatim>\<open>catch\<close> answers
  with status 500, the end of the \<^verbatim>\<open>try\<close> with \<^verbatim>\<open>{ success: true }\<close>.
\<close>

definition publish :: "outside \<Rightarrow> world \<Rightarrow> response \<times> world" where
  "publish out w =
     (case preview_file w of
        None \<Rightarrow> (Failure CopyFailed, w)
      | Some dataString \<Rightarrow>
          if \<not> write_ok out then (Failure CopyFailed, w)
          else
            let w1 = w\<lparr>production_file := Some dataString\<rparr>;
                w2 = upload (data_upload_ok out) ''data.json'' dataString w1
            in (case build out dataString of
                  Inl diagnostic \<Rightarrow> (Failure (BuildFailed diagnostic), w2)
                | Inr document \<Rightarrow>
                    let w3 = w2\<lparr>index_file := Some document\<rparr>
                    in (case index_file w3 of
                          None \<Rightarrow> (Failure ReadFailed, w3)
                        | Some htmlContent \<Rightarrow>
                            let w4 = upload (html_upload_ok out) ''index.html'' htmlContent w3
                            in if html_upload_ok out then (Success, w4)
                               else (Failure UploadFailed, w4))))"

section \<open>Example inputs\<close>





definition failing_build :: "string \<Rightarrow> string + string" where
  "failing_build dataString = Inl ''SyntaxError: Unexpected end of JSON input''"

definition working_build :: "string \<Rightarrow> string + string" where
  "working_build dataString = Inr ''<html></html>''"

definition draft_world :: world where
  "draft_world = \<lparr>preview_file = Some ''[1,2]'', production_file = Some ''[]'',
     index_file = Some ''<html>old</html>'', blobs = [], upload_calls = []\<rparr>"

definition services_tree :: jv where
  "services_tree = JObj [(''services'', JObj [(''items'',
      JArr [JObj [(''title'', JStr ''Weddings'')], JObj [(''title'', JStr ''Events'')],
            JObj [(''title'', JStr ''Sympathy'')]])])]"






















text \<open>A list whose one element carries the block of the template behind thirty characters.\<close>

definition growing_item :: string where
  "growing_item = ''PPPPPPPPPPPPPPPPPPPPPPPPPPPPPP{{#each a}}{{this}}{{/each}}''"

definition growing_tree :: jv where
  "growing_tree = JObj [(''a'', JArr [JStr growing_item])]"

definition growing_template :: string where
  "growing_template = ''{{#each a}}{{this}}{{/each}}''"

section \<open>Properties of the publish pipeline\<close>

text \<open>
  C2, as the source has it. When the build fails after the promotion, the request fails with
  the diagnostic of the build, \<^verbatim>\<open>data.json\<close> holds the promoted data, \<^verbatim>\<open>index.html\<close> is
  neither rewritten nor uploaded, and the one upload call made is that of \<^verbatim>\<open>data.json\<close>, which
  step 2 makes before the build starts.
\<close>

theorem publish_build_failure:
  assumes "preview_file w = Some d" and "write_ok out" and "build out d = Inl diagnostic"
  shows "fst (publish out w) = Failure (BuildFailed diagnostic)
       \<and> production_file (snd (publish out w)) = Some d
       \<and> upload_calls (snd (publish out w)) = upload_calls w @ [(''data.json'', d)]
       \<and> index_file (snd (publish out w)) = index_file w"
  using assms by (simp add: publish_def upload_def Let_def)

theorem publish_build_failure_witness:
  "fst (publish \<lparr>write_ok = True, data_upload_ok = False, build = failing_build,
                  html_upload_ok = True\<rparr> draft_world)
     = Failure (BuildFailed ''SyntaxError: Unexpected end of JSON input'')
   \<and> production_file (snd (publish \<lparr>write_ok = True, data_upload_ok = False,
         build = failing_build, html_upload_ok = True\<rparr> draft_world)) = Some ''[1,2]''
   \<and> upload_calls (snd (publish \<lparr>write_ok = True, data_upload_ok = False,
         build = failing_build, html_upload_ok = True\<rparr> draft_world)) = [(''data.json'', ''[1,2]'')]
   \<and> index_file (snd (publish \<lparr>write_ok = True, data_upload_ok = False,
         build = failing_build, html_upload_ok = True\<rparr> draft_world)) = Some ''<html>old</html>''"
  using publish_build_failure [of draft_world "''[1,2]''"
      "\<lparr>write_ok = True, data_upload_ok = False, build = failing_build, html_upload_ok = True\<rparr>"
      "''SyntaxError: Unexpected end of JSON input''"]
  by (simp add: draft_world_def failing_build_def)

text \<open>
  C2 as stated fails: in a run whose build throws, the data snapshot has been uploaded, and
  the container holds it.
\<close>

theorem publish_build_failure_counterexample:
  "fst (publish \<lparr>write_ok = True, data_upload_ok = True, build = failing_build,
                  html_upload_ok = True\<rparr> draft_world)
     = Failure (BuildFailed ''SyntaxError: Unexpected end of JSON input'')
   \<and> upload_calls (snd (publish \<lparr>write_ok = True, data_upload_ok = True,
         build = failing_build, html_upload_ok = True\<rparr> draft_world)) = [(''data.json'', ''[1,2]'')]
   \<and> blobs (snd (publish \<lparr>write_ok = True, data_upload_ok = True,
         build = failing_build, html_upload_ok = True\<rparr> draft_world)) = [(''data.json'', ''[1,2]'')]"
  by (simp add: publish_def upload_def Let_def failing_build_def draft_world_def)

text \<open>
  C9, as the source has it. After the promotion and a successful build the answer depends on
  the upload of \<^verbatim>\<open>index.html\<close> alone: the request fails when that upload fails, succeeds
  otherwise (whatever became of the upload of \<^verbatim>\<open>data.json\<close>), and \<^verbatim>\<open>data.json\<close> holds the
  promoted data in both cases.
\<close>

theorem publish_reports_html_upload:
  assumes "preview_file w = Some d" and "write_ok out" and "build out d = Inr document"
  shows "fst (publish out w) = (if html_upload_ok out then Success else Failure UploadFailed)
       \<and> production_file (snd (publish out w)) = Some d"
  using assms by (simp add: publish_def upload_def Let_def)

theorem publish_reports_html_upload_witness:
  "fst (publish \<lparr>write_ok = True, data_upload_ok = True, build = working_build,
                  html_upload_ok = False\<rparr> draft_world) = Failure UploadFailed
   \<and> production_file (snd (publish \<lparr>write_ok = True, data_upload_ok = True,
         build = working_build, html_upload_ok = False\<rparr> draft_world)) = Some ''[1,2]''"
  using publish_reports_html_upload [of draft_world "''[1,2]''"
      "\<lparr>write_ok = True, data_upload_ok = True, build = working_build, html_upload_ok = False\<rparr>"
      "''<html></html>''"]
  by (simp add: draft_world_def working_build_def)

text \<open>
  C9 as stated fails: the upload of \<^verbatim>\<open>data.json\<close> fails (the container stays empty of it)
  and the request reports success.
\<close>

theorem publish_swallows_data_upload_counterexample:
  "fst (publish \<lparr>write_ok = True, data_upload_ok = False, build = working_build,
                  html_upload_ok = True\<rparr> draft_world) = Success
   \<and> map_of (blobs (snd (publish \<lparr>write_ok = True, data_upload_ok = False,
         build = working_build, html_upload_ok = True\<rparr> draft_world))) ''data.json'' = None"
  by (simp add: publish_def upload_def Let_def working_build_def draft_world_def)

section \<open>Properties of the path resolver\<close>

lemma split_dot_segment: "CHR ''.'' \<notin> set a \<Longrightarrow> split_dot (a @ CHR ''.'' # p) = a # split_dot p"
  by (induction a) auto

lemma falsy_absorbs: "\<not> truthy v \<Longrightarrow> foldl and_prop (Inr v) ks = Inr v"
  by (induction ks) auto

lemma array_index_2: "array_index ''2'' = Some 2"
  by (simp add: array_index_def is_digit_def digit_val_def)





text \<open>
  C4, as the source has it. The resolver cuts the path at the dots and nowhere else, so an
  element of a sequence is addressed by a segment of its own: for every tree whose node at
  \<^verbatim>\<open>services.items\<close> is a sequence of at least three elements, the path
  \<^verbatim>\<open>services.items.2.title\<close> gives the \<^verbatim>\<open>title\<close> of the element at index 2 (the element itself
  when it is falsy). In the bracket form the second segment is the property name
  \<^verbatim>\<open>items[2]\<close> of \<^verbatim>\<open>services\<close>, and the result is \<^verbatim>\<open>undefined\<close> when there is no such property.
\<close>

theorem get_dotted_index:
  assumes "map_of kvs ''services'' = Some (JObj svs)"
      and "map_of svs ''items'' = Some (JArr xs)"
      and "3 \<le> length xs"
  shows "getValue (JObj kvs) ''services.items.2.title''
           = (if truthy (xs ! 2) then get_prop (xs ! 2) ''title'' else Inr (xs ! 2))
       \<and> (map_of svs ''items[2]'' = None \<longrightarrow>
            getValue (JObj kvs) ''services.items[2].title'' = Inr JUndef)"
  using assms by (simp add: getValue_def array_index_2 absent_member_def object_proto_def)

theorem get_dotted_index_witness:
  "getValue services_tree ''services.items.2.title'' = Inr (JStr ''Sympathy'')
   \<and> getValue services_tree ''services.items[2].title'' = Inr JUndef"
  using get_dotted_index [of "[(''services'', JObj [(''items'',
      JArr [JObj [(''title'', JStr ''Weddings'')], JObj [(''title'', JStr ''Events'')],
            JObj [(''title'', JStr ''Sympathy'')]])])]" "[(''items'',
      JArr [JObj [(''title'', JStr ''Weddings'')], JObj [(''title'', JStr ''Events'')],
            JObj [(''title'', JStr ''Sympathy'')]])]" "[JObj [(''title'', JStr ''Weddings'')],
            JObj [(''title'', JStr ''Events'')], JObj [(''title'', JStr ''Sympathy'')]]"]
  by (simp add: services_tree_def)

text \<open>
  C4 as stated fails: \<^verbatim>\<open>services.items\<close> has three elements, the one at index 2 has the title
  \<^verbatim>\<open>Sympathy\<close>, and the bracket path resolves to \<^verbatim>\<open>undefined\<close>.
\<close>

theorem get_bracket_index_counterexample:
  "getValue services_tree ''services.items[2].title'' = Inr JUndef
   \<and> get_prop (JObj [(''title'', JStr ''Sympathy'')]) ''title'' = Inr (JStr ''Sympathy'')"
  by (simp add: services_tree_def getValue_def absent_member_def object_proto_def)

section \<open>Properties of the path writer\<close>
























section \<open>Properties of the matcher\<close>

lemma rx_match_suffix: "rx_match ci r s = Some (ms, rest) \<Longrightarrow> \<exists>pre. s = pre @ rest"
proof (induction ci r s arbitrary: ms rest rule: rx_match.induct)
  case (1 ci s)
  then show ?case by simp
next
  case (2 ci r s)
  then show ?case by (auto split: option.splits)
next
  case (3 ci c r)
  then show ?case by simp
next
  case (4 ci c r x xs)
  then show ?case by (fastforce split: if_splits)
next
  case (5 ci c r)
  then show ?case by simp
next
  case (6 ci c r x xs)
  show ?case
  proof (cases "cls_ok ci c x")
    case True
    note ok = this
    show ?thesis
    proof (cases "rx_match ci (Star c # r) xs")
      case None
      with 6 ok show ?thesis by simp
    next
      case (Some m)
      with 6(4) ok have "m = (ms, rest)" by simp
      with 6(1) [OF ok] Some obtain pre where "xs = pre @ rest" by blast
      then have "x # xs = (x # pre) @ rest" by simp
      then show ?thesis by blast
    qed
  next
    case False
    with 6 show ?thesis by simp
  qed
next
  case (7 ci c r)
  then show ?case by simp
next
  case (8 ci c r x xs)
  show ?case
  proof (cases "rx_match ci r (x # xs)")
    case (Some m)
    with "8.prems" have "rx_match ci r (x # xs) = Some (ms, rest)" by simp
    then show ?thesis by (rule "8.IH"(1))
  next
    case None
    note none = this
    show ?thesis
    proof (cases "cls_ok ci c x")
      case True
      with "8.prems" none have "rx_match ci (Lazy c # r) xs = Some (ms, rest)" by simp
      with "8.IH"(2) [OF none True] obtain pre where "xs = pre @ rest" by blast
      then have "x # xs = (x # pre) @ rest" by simp
      then show ?thesis by blast
    next
      case False
      with "8.prems" none show ?thesis by simp
    qed
  qed
qed

lemma take_matched: "s = pre @ rest \<Longrightarrow> take (length s - length rest) s = pre"
  by simp

lemma scan_text: "concat (map seg_text (scan ci r s)) = s"
proof (induction ci r s rule: scan.induct)
  case (1 ci r)
  then show ?case by (auto split: option.splits)
next
  case (2 ci r x xs)
  show ?case
  proof (cases "rx_match ci r (x # xs)")
    case None
    with 2 show ?thesis by simp
  next
    case (Some m)
    obtain ms rest where m: "m = (ms, rest)" by (cases m)
    from Some m obtain pre where pre: "x # xs = pre @ rest"
      using rx_match_suffix by blast
    show ?thesis
    proof (cases "length (snd m) < length (x # xs)")
      case True
      have "concat (map seg_text (scan ci r (snd m))) = snd m"
        using 2(2) [OF Some True] .
      then have "concat (map seg_text (scan ci r (x # xs))) = take (length (x # xs) - length rest) (x # xs) @ rest"
        using Some True m by simp
      also have "\<dots> = pre @ rest" using take_matched [OF pre] by simp
      finally show ?thesis using pre by simp
    next
      case False
      then show ?thesis using 2(3) [OF Some False] Some by simp
    qed
  qed
qed




section \<open>Properties of scalar substitution\<close>

lemma lazy_dot_to_close:
  assumes "CHR ''}'' \<notin> set ks" and "\<forall>c\<in>set ks. c \<noteq> CHR 0x0A \<and> c \<noteq> CHR 0x0D"
  shows "rx_match False (Lazy Dot # Mark # lits ''}}'') (ks @ ''}}'') = Some ([''}}''], [])"
  using assms by (induction ks) (auto simp: lits_def)

lemma placeholder_match:
  assumes "key = k # ks" and "k \<noteq> CHR ''#''" and "k \<noteq> CHR ''/''"
      and "CHR ''}'' \<notin> set ks" and "\<forall>c\<in>set ks. c \<noteq> CHR 0x0A \<and> c \<noteq> CHR 0x0D"
  shows "rx_match False placeholder_rx (''{{'' @ key @ ''}}'') = Some ([key @ ''}}'', ''}}''], [])"
  using assms lazy_dot_to_close [of ks] by (simp add: placeholder_rx_def lits_def)

lemma placeholder_scan:
  assumes "key = k # ks" and "k \<noteq> CHR ''#''" and "k \<noteq> CHR ''/''"
      and "CHR ''}'' \<notin> set ks" and "\<forall>c\<in>set ks. c \<noteq> CHR 0x0A \<and> c \<noteq> CHR 0x0D"
  shows "scan False placeholder_rx (''{{'' @ key @ ''}}'') = [Hit (''{{'' @ key @ ''}}'') [key]]"
proof -
  have m: "rx_match False placeholder_rx (CHR ''{'' # CHR ''{'' # key @ ''}}'') = Some ([key @ ''}}'', ''}}''], [])"
    using placeholder_match [OF assms] by simp
  have e: "rx_match False placeholder_rx [] = None"
    by (simp add: placeholder_rx_def lits_def)
  show ?thesis using m e by simp
qed





















text \<open>
  C10. Where the node at segment \<open>a\<close> of the tree is a falsy scalar (\<^verbatim>\<open>null\<close>, \<^verbatim>\<open>false\<close>, 0
  or the empty string), the resolver returns that scalar for the path \<open>a.b\<close>, not
  \<^verbatim>\<open>undefined\<close>, and scalar substitution replaces a placeholder whose key trims to \<open>a.b\<close> by
  the string form of the scalar. The key is any text the placeholder expression takes whole:
  it starts with neither \<^verbatim>\<open>#\<close> nor \<^verbatim>\<open>/\<close> and has no \<^verbatim>\<open>}\<close> or line break after its first character.
\<close>

theorem falsy_intermediate_propagates:
  assumes "CHR ''.'' \<notin> set a" and "map_of kvs a = Some v"
      and "v = JNull \<or> v = JBool False \<or> v = JNum 0 \<or> v = JStr []"
      and "trim key = a @ ''.'' @ b"
      and "key = k # ks" and "k \<noteq> CHR ''#''" and "k \<noteq> CHR ''/''"
      and "CHR ''}'' \<notin> set ks" and "\<forall>c\<in>set ks. c \<noteq> CHR 0x0A \<and> c \<noteq> CHR 0x0D"
  shows "getValue (JObj kvs) (a @ ''.'' @ b) = Inr v
       \<and> scalar_pass (JObj kvs) (''{{'' @ key @ ''}}'') = to_string v
       \<and> to_string v = Inr (if v = JNull then ''null'' else if v = JBool False then ''false''
                            else if v = JNum 0 then ''0'' else [])"
proof -
  have falsy: "\<not> truthy v" using assms(3) by auto
  have "getValue (JObj kvs) (a @ ''.'' @ b) = foldl and_prop (Inr v) (split_dot b)"
    using assms(1,2) by (simp add: getValue_def split_dot_segment)
  then have g: "getValue (JObj kvs) (a @ ''.'' @ b) = Inr v"
    using falsy by (simp add: falsy_absorbs)
  have "v \<noteq> JUndef" using assms(3) by auto
  then have "placeholder_cb (JObj kvs) (''{{'' @ key @ ''}}'') [key] = to_string v"
    using g assms(4) by (simp add: placeholder_cb_def group1_def)
  then have p: "scalar_pass (JObj kvs) (''{{'' @ key @ ''}}'') = to_string v"
    using placeholder_scan [OF assms(5-9)]
    by (cases "to_string v") (simp_all add: scalar_pass_def replace_all_def)
  have "to_string v = Inr (if v = JNull then ''null'' else if v = JBool False then ''false''
                            else if v = JNum 0 then ''0'' else [])"
    using assms(3) by (auto simp: show_int_def digit_char_def)
  with g p show ?thesis by simp
qed

theorem falsy_intermediate_propagates_witness:
  "getValue (JObj [(''stock'', JNum 0)]) ''stock.count'' = Inr (JNum 0)
   \<and> scalar_pass (JObj [(''stock'', JNum 0)]) ''{{stock.count}}'' = Inr ''0''"
  using falsy_intermediate_propagates [of "''stock''" "[(''stock'', JNum 0)]" "JNum 0"
     "''stock.count''" "''count''" "CHR ''s''" "''tock.count''"]
  by (simp add: trim_def is_ws_def show_int_def digit_char_def)

section \<open>Properties of the iteration pass\<close>












section \<open>Properties of section overrides\<close>

lemma expand_dollar_plain: "CHR ''$'' \<notin> set rep \<Longrightarrow> expand_dollar m pre post rep = rep"
  by (induction m pre post rep rule: expand_dollar.induct) auto





































































section \<open>Termination of the compiler\<close>

text \<open>
  The loop of the iteration pass need not end. Each turn on \<open>growing_template\<close> and
  \<open>growing_tree\<close> puts the block back behind thirty more characters, past the place where
  the next search starts, so no bound on the turns is enough.
\<close>

lemma growing_match:
  "rx_match False eachRegex growing_template
     = Some ([''a}}{{this}}{{/each}}'', ''}}{{this}}{{/each}}'', ''{{this}}{{/each}}'', ''{{/each}}''], [])"
  by (simp add: eachRegex_def lits_def growing_template_def is_ws_def)

lemma growing_find:
  assumes "set q \<subseteq> {CHR ''P''}"
  shows "rx_find_from False eachRegex acc (q @ growing_template)
           = Some \<lparr>before = rev acc @ q, whole = growing_template,
                    groups = [''a'', ''{{this}}''], after = []\<rparr>"
  using assms
proof (induction q arbitrary: acc)
  case Nil
  have "rx_find_from False eachRegex acc growing_template
          = Some (hit_at (rev acc) growing_template
                    ([''a}}{{this}}{{/each}}'', ''}}{{this}}{{/each}}'', ''{{this}}{{/each}}'', ''{{/each}}''], []))"
    using growing_match by (simp add: growing_template_def)
  then show ?case by (simp add: hit_at_def growing_template_def)
next
  case (Cons c q)
  then have c: "c = CHR ''P''" and q: "set q \<subseteq> {CHR ''P''}" by auto
  have "rx_match False eachRegex (c # q @ growing_template) = None"
    using c by (simp add: eachRegex_def lits_def)
  then show ?case using Cons.IH [OF q, of "c # acc"] by simp
qed

lemma growing_find_sub:
  assumes "set p \<subseteq> {CHR ''P''}"
  shows "find_sub growing_template acc (p @ growing_template) = Some (rev acc @ p, [])"
  using assms
proof (induction p arbitrary: acc)
  case Nil
  then show ?case by (simp add: growing_template_def)
next
  case (Cons c p)
  then have c: "c = CHR ''P''" and p: "set p \<subseteq> {CHR ''P''}" by auto
  have "take (length growing_template) (c # p @ growing_template) \<noteq> growing_template"
    using c by (simp add: growing_template_def)
  then show ?case using Cons.IH [OF p, of "c # acc"] by simp
qed

lemma growing_render: "render_items ''{{this}}'' [JStr growing_item] = Inr growing_item"
  by code_simp

lemma growing_value: "getValue growing_tree (trim ''a'') = Inr (JArr [JStr growing_item])"
  by (simp add: growing_tree_def getValue_def trim_def is_ws_def)

lemma growing_plain: "expand_dollar m pre post growing_item = growing_item"
  by (rule expand_dollar_plain) (simp add: growing_item_def)

lemma growing_turn:
  assumes "set p \<subseteq> {CHR ''P''}" and "i \<le> length p"
  shows "each_turn growing_tree (p @ growing_template) i
           = Continue (p @ growing_item) (length p + 28)"
proof -
  have "set (drop i p) \<subseteq> {CHR ''P''}" using assms(1) by (meson set_drop_subset subset_trans)
  then have "rx_find False eachRegex (drop i p @ growing_template)
               = Some \<lparr>before = drop i p, whole = growing_template,
                        groups = [''a'', ''{{this}}''], after = []\<rparr>"
    using growing_find [of "drop i p" "[]"] by (simp add: rx_find_def)
  then have exec: "exec_from eachRegex (p @ growing_template) i
               = Some \<lparr>before = drop i p, whole = growing_template,
                        groups = [''a'', ''{{this}}''], after = []\<rparr>"
    using assms(2) by (simp add: exec_from_def)
  have repl: "str_replace (p @ growing_template) growing_template growing_item = p @ growing_item"
    using growing_find_sub [OF assms(1), of "[]"] by (simp add: str_replace_def growing_plain)
  have len: "i + length (drop i p) + length growing_template = length p + 28"
    using assms(2) by (simp add: growing_template_def)
  show ?thesis
    using exec repl len growing_value growing_render
    by (simp add: each_turn_def Let_def group1_def group2_def)
qed

lemma growing_loop:
  "set p \<subseteq> {CHR ''P''} \<Longrightarrow> i \<le> length p \<Longrightarrow> each_loop n growing_tree (p @ growing_template) i = None"
proof (induction n arbitrary: p i)
  case 0
  then show ?case by simp
next
  case (Suc n)
  let ?p = "p @ ''PPPPPPPPPPPPPPPPPPPPPPPPPPPPPP''"
  have next_doc: "p @ growing_item = ?p @ growing_template"
    by (simp add: growing_item_def growing_template_def)
  have "set ?p \<subseteq> {CHR ''P''}" using Suc.prems(1) by auto
  moreover have "length p + 28 \<le> length ?p" by simp
  ultimately have "each_loop n growing_tree (?p @ growing_template) (length p + 28) = None"
    by (rule Suc.IH)
  then show ?case using growing_turn [OF Suc.prems] next_doc by simp
qed

lemma buildHTML_never_ends: "buildHTML n growing_template growing_tree = None"
proof -
  have "scalar_pass growing_tree growing_template = Inr growing_template" by code_simp
  moreover have "each_loop n growing_tree ([] @ growing_template) 0 = None"
    by (rule growing_loop) simp_all
  ultimately show ?thesis by (simp add: buildHTML_def)
qed

lemma each_loop_more_fuel:
  "each_loop n data html i = Some r \<Longrightarrow> each_loop (n + k) data html i = Some r"
proof (induction n arbitrary: html i)
  case 0
  then show ?case by simp
next
  case (Suc n)
  then show ?case by (cases "each_turn data html i") auto
qed

lemma buildHTML_more_fuel:
  "buildHTML n template data = Some r \<Longrightarrow> buildHTML (n + k) template data = Some r"
  unfolding buildHTML_def
  by (auto split: sum.splits option.splits dest: each_loop_more_fuel [where k = k])

end
